theory Spec2Isabelle
  imports Main
begin

section \<open>Values read from the descriptor file\<close>

text \<open>
  \<open>json.load\<close> returns Python values: \<open>None\<close>, booleans, numbers, strings, lists and
  dicts. A dict keeps its keys in insertion order and holds each key once, so it is an
  association list read in iteration order. Nothing in the modelled code inspects a
  number, so integers stand for all of them.
\<close>

datatype json =
    JNull
  | JBool bool
  | JNum int
  | JStr string
  | JArr "json list"
  | JObj "(string \<times> json) list"

text \<open>The exceptions the modelled code can raise, by their Python class.\<close>

datatype py_error =
    JSONDecodeError
  | AttributeError
  | TypeError
  | ValueError
  | IsADirectoryError
  | PermissionError
  | UnicodeDecodeError

text \<open>\<open>d.get(key, default)\<close>; on a value that is not a dict the attribute is missing.\<close>

fun py_get :: "json \<Rightarrow> string \<Rightarrow> json \<Rightarrow> py_error + json" where
  "py_get (JObj kvs) k d = Inr (case map_of kvs k of None \<Rightarrow> d | Some v \<Rightarrow> v)"
| "py_get _ k d = Inl AttributeError"

text \<open>\<open>len(v)\<close>: defined on dicts, lists and strings.\<close>

fun py_len :: "json \<Rightarrow> py_error + nat" where
  "py_len (JObj kvs) = Inr (length kvs)"
| "py_len (JArr xs) = Inr (length xs)"
| "py_len (JStr s) = Inr (length s)"
| "py_len _ = Inl TypeError"

text \<open>Substring test, for \<open>in\<close> on a string.\<close>

fun is_substring :: "string \<Rightarrow> string \<Rightarrow> bool" where
  "is_substring p [] = (p = [])"
| "is_substring p (c # cs) = (take (length p) (c # cs) = p \<or> is_substring p cs)"

text \<open>\<open>key in v\<close>: key membership on a dict, element membership on a list, substring on a
  string, \<open>TypeError\<close> on anything else.\<close>

fun py_in :: "string \<Rightarrow> json \<Rightarrow> py_error + bool" where
  "py_in k (JObj kvs) = Inr (k \<in> set (map fst kvs))"
| "py_in k (JArr xs) = Inr (JStr k \<in> set xs)"
| "py_in k (JStr s) = Inr (is_substring k s)"
| "py_in k _ = Inl TypeError"

section \<open>MCPIntegration\<close>

subsection \<open>load_config\<close>

text \<open>
  What \<open>load_config\<close> finds at \<open>config_path\<close>: no file; a directory; a file the process may
  not reach or read; a file whose bytes are not text in the encoding \<open>open\<close> uses; a file
  whose text is not JSON; or a file that parses to a value.
\<close>

datatype resource = Absent | Directory | Unreadable | NotText | NotJSON | Doc json

text \<open>The one record \<open>load_config\<close> writes to the logger.\<close>

datatype log_record = LoadedInfo nat | NotFoundWarning

text \<open>
  \<open>load_config\<close>, from the state \<open>self.servers = {}\<close> that \<open>__init__\<close> sets just before the
  call. The result is the new \<open>self.servers\<close> and the log record, or the exception that
  leaves the method: \<open>open\<close> raising on a directory or a file that may not be read (as
  \<open>exists\<close> does on a path that may not be reached), \<open>json.load\<close> raising on bytes that do
  not decode or on malformed text, \<open>config.get\<close> on a document that is not a dict, \<open>len\<close>
  inside the log message on a \<open>servers\<close> value without a length. A missing file is the
  \<open>else\<close> branch: a warning, and \<open>servers\<close> stays empty.
\<close>

definition load_config :: "resource \<Rightarrow> py_error + (json \<times> log_record)" where
  "load_config r =
     (case r of
        Absent \<Rightarrow> Inr (JObj [], NotFoundWarning)
      | Directory \<Rightarrow> Inl IsADirectoryError
      | Unreadable \<Rightarrow> Inl PermissionError
      | NotText \<Rightarrow> Inl UnicodeDecodeError
      | NotJSON \<Rightarrow> Inl JSONDecodeError
      | Doc config \<Rightarrow>
          (case py_get config ''servers'' (JObj []) of
             Inl e \<Rightarrow> Inl e
           | Inr servers \<Rightarrow>
               (case py_len servers of
                  Inl e \<Rightarrow> Inl e
                | Inr n \<Rightarrow> Inr (servers, LoadedInfo n))))"

subsection \<open>get_available_tools\<close>

text \<open>One entry of the list \<open>get_available_tools\<close> builds.\<close>

record tool_info =
  ti_name :: string
  ti_description :: json
  ti_command :: json
  ti_args :: json

text \<open>The loop body: three \<open>server_config.get\<close> calls, each of which needs a dict.\<close>

definition tool_entry :: "string \<Rightarrow> json \<Rightarrow> py_error + tool_info" where
  "tool_entry server_name server_config =
     (case py_get server_config ''description'' (JStr []) of
        Inl e \<Rightarrow> Inl e
      | Inr d \<Rightarrow>
          (case py_get server_config ''command'' (JStr []) of
             Inl e \<Rightarrow> Inl e
           | Inr c \<Rightarrow>
               (case py_get server_config ''args'' (JArr []) of
                  Inl e \<Rightarrow> Inl e
                | Inr a \<Rightarrow>
                    Inr \<lparr>ti_name = server_name, ti_description = d,
                         ti_command = c, ti_args = a\<rparr>)))"

text \<open>The \<open>for\<close> loop over \<open>self.servers.items()\<close>, appending to \<open>tools\<close>.\<close>

fun tools_loop :: "(string \<times> json) list \<Rightarrow> tool_info list \<Rightarrow> py_error + tool_info list" where
  "tools_loop [] tools = Inr tools"
| "tools_loop ((server_name, server_config) # rest) tools =
     (case tool_entry server_name server_config of
        Inl e \<Rightarrow> Inl e
      | Inr t \<Rightarrow> tools_loop rest (tools @ [t]))"

fun get_available_tools :: "json \<Rightarrow> py_error + tool_info list" where
  "get_available_tools (JObj kvs) = tools_loop kvs []"
| "get_available_tools _ = Inl AttributeError"

subsection \<open>create_tool_functions\<close>

text \<open>
  The closures the \<open>_create_*_function\<close> methods return, as tagged variants.
  \<open>WebSearch\<close> is built by \<open>_create_web_search_function\<close>, which nothing calls.
\<close>

datatype tool =
    ReadFile
  | WriteFile
  | ListFiles
  | WebSearch
  | GithubSearch
  | GithubListRepos
  | GithubGetFile

text \<open>\<open>functions[k] = v\<close> on a dict in insertion order.\<close>

definition dict_set :: "('k \<times> 'v) list \<Rightarrow> 'k \<Rightarrow> 'v \<Rightarrow> ('k \<times> 'v) list" where
  "dict_set d k v =
     (if k \<in> set (map fst d) then map (\<lambda>(k', v'). if k' = k then (k', v) else (k', v')) d
      else d @ [(k, v)])"

definition create_tool_functions :: "json \<Rightarrow> py_error + (string \<times> tool) list" where
  "create_tool_functions servers =
     (case py_in ''fs'' servers of
        Inl e \<Rightarrow> Inl e
      | Inr has_fs \<Rightarrow>
          (let functions0 = [];
               functions1 =
                 (if has_fs then
                    dict_set (dict_set (dict_set functions0
                      ''read_file'' ReadFile) ''write_file'' WriteFile) ''list_files'' ListFiles
                  else functions0)
           in case py_in ''github'' servers of
                Inl e \<Rightarrow> Inl e
              | Inr has_github \<Rightarrow>
                  Inr (if has_github then
                         dict_set (dict_set (dict_set functions1
                           ''github_search'' GithubSearch)
                           ''github_list_repos'' GithubListRepos)
                           ''github_get_file'' GithubGetFile
                       else functions1)))"

section \<open>Agents\<close>

subsection \<open>GroqModelClient\<close>

text \<open>
  The handle \<open>GroqModelClient.get_client\<close> returns: the arguments given to the
  OpenAI-compatible client. The client itself belongs to a library and is opaque here.
\<close>

record model_client =
  mc_model :: string
  mc_api_key :: string
  mc_base_url :: string

text \<open>
  \<open>GroqModelClient.__init__\<close>: \<open>api_key or os.getenv("GROQ_API_KEY")\<close>, where \<open>None\<close> and
  the empty string are both falsy, then \<open>ValueError\<close> when no key was found.
\<close>

definition py_or :: "string option \<Rightarrow> string option \<Rightarrow> string option" where
  "py_or a b = (case a of None \<Rightarrow> b | Some s \<Rightarrow> if s = [] then b else Some s)"

definition GroqModelClient :: "string option \<Rightarrow> string option \<Rightarrow> string \<Rightarrow> py_error + model_client" where
  "GroqModelClient api_key env_key model =
     (case py_or api_key env_key of
        None \<Rightarrow> Inl ValueError
      | Some k \<Rightarrow>
          if k = [] then Inl ValueError
          else Inr \<lparr>mc_model = model, mc_api_key = k,
                    mc_base_url = ''https://api.groq.com/openai/v1''\<rparr>)"

subsection \<open>AgentConfig, AssistantAgent and the system\<close>

record AgentConfig =
  name :: string
  role :: string
  system_message :: string
  model_client :: model_client

text \<open>
  \<open>AssistantAgent\<close> is a library class; the model keeps the four keyword arguments
  \<open>create_agent\<close> passes to its constructor.
\<close>

record AssistantAgent =
  agent_name :: string
  agent_model_client :: model_client
  agent_system_message :: string
  agent_tools :: "tool list"

text \<open>
  \<open>RoundRobinGroupChat(participants, termination_condition=MaxMessageTermination(n))\<close>,
  again by its constructor arguments.
\<close>

record team =
  participants :: "AssistantAgent list"
  max_messages :: nat

record MultiAgentSystem =
  groq_client :: model_client
  servers :: json
  agents :: "(string \<times> AssistantAgent) list"
  the_team :: "team option"
  tool_functions :: "(string \<times> tool) list"

text \<open>
  \<open>MultiAgentSystem.__init__\<close>: the model client, then \<open>MCPIntegration()\<close> (whose
  constructor runs \<open>load_config\<close>), then \<open>create_tool_functions\<close>. Any exception of the
  three leaves the constructor, and no system exists.
\<close>

definition init :: "string option \<Rightarrow> string option \<Rightarrow> resource \<Rightarrow> py_error + MultiAgentSystem" where
  "init groq_api_key env_key r =
     (case GroqModelClient groq_api_key env_key ''llama3-8b-8192'' of
        Inl e \<Rightarrow> Inl e
      | Inr client \<Rightarrow>
          (case load_config r of
             Inl e \<Rightarrow> Inl e
           | Inr (srv, _) \<Rightarrow>
               (case create_tool_functions srv of
                  Inl e \<Rightarrow> Inl e
                | Inr fns \<Rightarrow>
                    Inr \<lparr>groq_client = client, servers = srv, agents = [],
                         the_team = None, tool_functions = fns\<rparr>)))"

subsection \<open>create_agent\<close>

definition nl :: string where
  "nl = [CHR 0x0A]"

text \<open>\<open>sep.join(xs)\<close>.\<close>

fun join :: "string \<Rightarrow> string list \<Rightarrow> string" where
  "join sep [] = []"
| "join sep [x] = x"
| "join sep (x # y # ys) = x @ sep @ join sep (y # ys)"

text \<open>The lines of a multi-line literal, joined by the newline that ends each but the last.\<close>

definition unlines_py :: "string list \<Rightarrow> string" where
  "unlines_py ls = join nl ls"

text \<open>
  The six hint lines of the template. They are literal text of the f-string: no
  placeholder stands in them.
\<close>

definition tool_hints :: "string list" where
  "tool_hints =
     [''        - read_file(file_path): Read file contents from workspace'',
      ''        - write_file(file_path, content): Write content to files in workspace'',
      ''        - list_files(directory): List files in workspace directory'',
      ''        - github_search(query): Search GitHub repositories'',
      ''        - github_list_repos(username): List GitHub repositories'',
      ''        - github_get_file(repo, file_path, branch): Get file contents from GitHub repo'']"

text \<open>
  The f-string of \<open>create_agent\<close>, line by line as the source has it: it opens with a
  newline, every line carries the eight blanks of the source's indentation, and the two
  placeholders are \<open>config.system_message\<close> and \<open>', '.join(available_tools)\<close>.
\<close>

definition enhanced_system_message :: "string \<Rightarrow> string list \<Rightarrow> string" where
  "enhanced_system_message base available_tools =
     unlines_py
       ([[],
         ''        '' @ base,
         ''        '',
         ''        Available tools: '' @ join '', '' available_tools,
         ''        '',
         ''        You can use these tools to accomplish tasks:'']
        @ tool_hints @
        [''        '',
         ''        Always collaborate effectively with other agents and provide clear, actionable responses.'',
         ''        ''])"

definition create_agent :: "MultiAgentSystem \<Rightarrow> AgentConfig \<Rightarrow> AssistantAgent" where
  "create_agent self config =
     (let available_tools = map fst (tool_functions self)
      in \<lparr>agent_name = name config,
          agent_model_client = model_client config,
          agent_system_message = enhanced_system_message (system_message config) available_tools,
          agent_tools = map snd (tool_functions self)\<rparr>)"

subsection \<open>The two preset teams\<close>

definition researcher_prompt :: string where
  "researcher_prompt = unlines_py
     [''You are a research specialist agent. Your responsibilities include:'',
      ''            - Conducting thorough research on given topics'',
      ''            - Gathering information from multiple sources'',
      ''            - Analyzing and synthesizing research findings'',
      ''            - Providing well-structured, fact-based insights'',
      ''            - Using available tools for web searches and data retrieval'',
      ''            - Collaborating with other agents to provide comprehensive research support'',
      ''            '',
      ''            Focus on accuracy, depth, and providing actionable insights.'']"

definition researcher_config :: "model_client \<Rightarrow> AgentConfig" where
  "researcher_config mc =
     \<lparr>name = ''Researcher'', role = ''Research Specialist'',
      system_message = researcher_prompt,
      model_client = mc\<rparr>"

definition analyst_prompt :: string where
  "analyst_prompt = unlines_py
     [''You are a data analysis specialist. Your responsibilities include:'',
      ''            - Analyzing research data and findings'',
      ''            - Identifying patterns, trends, and insights'',
      ''            - Creating structured reports and summaries'',
      ''            - Providing data-driven recommendations'',
      ''            - Using file operations to save and retrieve analysis results'',
      ''            - Collaborating with researchers to validate findings'',
      ''            '',
      ''            Focus on objectivity, statistical accuracy, and clear communication of insights.'']"

definition analyst_config :: "model_client \<Rightarrow> AgentConfig" where
  "analyst_config mc =
     \<lparr>name = ''Analyst'', role = ''Data Analyst'',
      system_message = analyst_prompt,
      model_client = mc\<rparr>"

definition technical_expert_prompt :: string where
  "technical_expert_prompt = unlines_py
     [''You are a technical expert agent. Your responsibilities include:'',
      ''            - Providing technical expertise and solutions'',
      ''            - Evaluating technical feasibility of proposals'',
      ''            - Suggesting implementation approaches'',
      ''            - Creating technical documentation'',
      ''            - Using GitHub search to find relevant code and projects'',
      ''            - Collaborating with other agents on technical aspects'',
      ''            '',
      ''            Focus on practical solutions, best practices, and technical accuracy.'']"

definition technical_expert_config :: "model_client \<Rightarrow> AgentConfig" where
  "technical_expert_config mc =
     \<lparr>name = ''TechnicalExpert'', role = ''Technical Specialist'',
      system_message = technical_expert_prompt,
      model_client = mc\<rparr>"

definition coordinator_prompt :: string where
  "coordinator_prompt = unlines_py
     [''You are a project coordination specialist. Your responsibilities include:'',
      ''            - Coordinating tasks and workflows between agents'',
      ''            - Managing project timelines and priorities'',
      ''            - Ensuring effective communication and collaboration'',
      ''            - Synthesizing inputs from different agents'',
      ''            - Creating comprehensive project summaries'',
      ''            - Facilitating decision-making processes'',
      ''            '',
      ''            Focus on organization, clarity, and ensuring all agents work together effectively.'']"

definition coordinator_config :: "model_client \<Rightarrow> AgentConfig" where
  "coordinator_config mc =
     \<lparr>name = ''Coordinator'', role = ''Project Coordinator'',
      system_message = coordinator_prompt,
      model_client = mc\<rparr>"

definition developer_prompt :: string where
  "developer_prompt = unlines_py
     [''You are a software development specialist. Your responsibilities include:'',
      ''            - Writing high-quality code and scripts'',
      ''            - Reviewing and debugging code'',
      ''            - Implementing technical solutions'',
      ''            - Following coding best practices'',
      ''            - Using file operations to create and manage code files'',
      ''            - Collaborating with architects and testers'',
      ''            '',
      ''            Focus on clean, efficient, and well-documented code.'']"

definition developer_config :: "model_client \<Rightarrow> AgentConfig" where
  "developer_config mc =
     \<lparr>name = ''Developer'', role = ''Software Developer'',
      system_message = developer_prompt,
      model_client = mc\<rparr>"

definition architect_prompt :: string where
  "architect_prompt = unlines_py
     [''You are a software architecture specialist. Your responsibilities include:'',
      ''            - Designing system architecture and components'',
      ''            - Making technical decisions and trade-offs'',
      ''            - Creating technical specifications'',
      ''            - Ensuring scalability and maintainability'',
      ''            - Providing architectural guidance'',
      ''            - Collaborating with developers and stakeholders'',
      ''            '',
      ''            Focus on robust, scalable, and maintainable solutions.'']"

definition architect_config :: "model_client \<Rightarrow> AgentConfig" where
  "architect_config mc =
     \<lparr>name = ''Architect'', role = ''Software Architect'',
      system_message = architect_prompt,
      model_client = mc\<rparr>"

definition tester_prompt :: string where
  "tester_prompt = unlines_py
     [''You are a quality assurance specialist. Your responsibilities include:'',
      ''            - Creating test plans and test cases'',
      ''            - Identifying potential issues and edge cases'',
      ''            - Validating functionality and performance'',
      ''            - Ensuring code quality and reliability'',
      ''            - Creating testing documentation'',
      ''            - Collaborating with developers to resolve issues'',
      ''            '',
      ''            Focus on comprehensive testing and quality assurance.'']"

definition tester_config :: "model_client \<Rightarrow> AgentConfig" where
  "tester_config mc =
     \<lparr>name = ''Tester'', role = ''Quality Assurance'',
      system_message = tester_prompt,
      model_client = mc\<rparr>"

definition devops_prompt :: string where
  "devops_prompt = unlines_py
     [''You are a DevOps specialist. Your responsibilities include:'',
      ''            - Managing deployment and infrastructure'',
      ''            - Setting up CI/CD pipelines'',
      ''            - Monitoring and maintaining systems'',
      ''            - Ensuring security and performance'',
      ''            - Creating deployment documentation'',
      ''            - Collaborating with development and operations teams'',
      ''            '',
      ''            Focus on automation, reliability, and operational excellence.'']"

definition devops_config :: "model_client \<Rightarrow> AgentConfig" where
  "devops_config mc =
     \<lparr>name = ''DevOps'', role = ''DevOps Engineer'',
      system_message = devops_prompt,
      model_client = mc\<rparr>"

definition setup_research_team :: "MultiAgentSystem \<Rightarrow> MultiAgentSystem" where
  "setup_research_team self =
     (let mc = groq_client self;
          research_agent = create_agent self (researcher_config mc);
          analysis_agent = create_agent self (analyst_config mc);
          technical_agent = create_agent self (technical_expert_config mc);
          coordinator_agent = create_agent self (coordinator_config mc);
          ags = [(''researcher'', research_agent), (''analyst'', analysis_agent),
                 (''technical'', technical_agent), (''coordinator'', coordinator_agent)]
      in self\<lparr>agents := ags,
              the_team := Some \<lparr>participants = map snd ags, max_messages = 20\<rparr>\<rparr>)"

definition setup_development_team :: "MultiAgentSystem \<Rightarrow> MultiAgentSystem" where
  "setup_development_team self =
     (let mc = groq_client self;
          developer_agent = create_agent self (developer_config mc);
          architect_agent = create_agent self (architect_config mc);
          tester_agent = create_agent self (tester_config mc);
          devops_agent = create_agent self (devops_config mc);
          ags = [(''developer'', developer_agent), (''architect'', architect_agent),
                 (''tester'', tester_agent), (''devops'', devops_agent)]
      in self\<lparr>agents := ags,
              the_team := Some \<lparr>participants = map snd ags, max_messages = 25\<rparr>\<rparr>)"

section \<open>The file-system tools\<close>

subsection \<open>The file system under them\<close>

text \<open>
  The tools reach the disk through \<open>pathlib\<close> (as of Python 3.11). The model is a POSIX
  file system: every node is a regular file holding text, a directory, or the null device,
  and it is found under its location, the list of names that leads to it from the root.
  A file holds the text that was written to it; a character of a \<open>string\<close> is a code
  point below 256, so it has a UTF-8 encoding, of one byte below 128 and of two bytes from
  there on, and encoding and decoding never fail. The process may search, read and write
  every node, the disk never fills, and there are no symbolic links. Calls run one after
  another, as the tools do.
\<close>

datatype node = File string | Dir | Null

type_synonym location = "string list"

record fs =
  nodes :: "(location \<times> node) list"
  cwd :: location

definition lookup :: "fs \<Rightarrow> location \<Rightarrow> node option" where
  "lookup f q = map_of (nodes f) q"

definition store :: "fs \<Rightarrow> location \<Rightarrow> node \<Rightarrow> fs" where
  "store f q n = f\<lparr>nodes := dict_set (nodes f) q n\<rparr>"

text \<open>The errors of the system calls the tools make, and the exceptions that carry them.\<close>

datatype errno = ENOENT | ENOTDIR | EISDIR | EEXIST | ENAMETOOLONG

datatype os_exn =
    OSError errno string
  | EmbeddedNull

text \<open>
  \<open>str(e)\<close> as the tools put it into their result: \<open>[Errno n] message: 'path'\<close> for an
  \<open>OSError\<close>. The path is shown between quotes as it is: the escapes \<open>repr\<close> would add to
  an unusual name are left out.
\<close>

definition strerror :: "errno \<Rightarrow> string" where
  "strerror e =
     (case e of
        ENOENT \<Rightarrow> ''[Errno 2] No such file or directory''
      | ENOTDIR \<Rightarrow> ''[Errno 20] Not a directory''
      | EISDIR \<Rightarrow> ''[Errno 21] Is a directory''
      | EEXIST \<Rightarrow> ''[Errno 17] File exists''
      | ENAMETOOLONG \<Rightarrow> ''[Errno 36] File name too long'')"

definition exc_str :: "os_exn \<Rightarrow> string" where
  "exc_str e =
     (case e of
        OSError n p \<Rightarrow> strerror n @ '': '' @ [CHR 0x27] @ p @ [CHR 0x27]
      | EmbeddedNull \<Rightarrow> ''embedded null byte'')"

subsection \<open>pathlib paths\<close>

text \<open>
  A \<open>PurePosixPath\<close>: its root and its components. The root is empty for a relative
  path, \<open>//\<close> for a string that begins with exactly two slashes, and \<open>/\<close> for any other
  string that begins with a slash. Parsing splits at \<open>/\<close> and drops empty components and
  \<open>.\<close>; it keeps \<open>..\<close>.
\<close>

record pypath =
  root :: string
  parts :: "string list"

definition is_abs :: "pypath \<Rightarrow> bool" where
  "is_abs p = (root p \<noteq> [])"

fun split_on :: "char \<Rightarrow> string \<Rightarrow> string list" where
  "split_on c [] = [[]]"
| "split_on c (x # xs) =
     (if x = c then [] # split_on c xs
      else (case split_on c xs of
              [] \<Rightarrow> [[x]]
            | w # ws \<Rightarrow> (x # w) # ws))"

definition Path :: "string \<Rightarrow> pypath" where
  "Path s =
     \<lparr>root =
        (let n = length (takeWhile (\<lambda>c. c = CHR ''/'') s)
         in if n = 0 then [] else if n = 2 then ''//'' else ''/''),
      parts = filter (\<lambda>c. c \<noteq> [] \<and> c \<noteq> ''.'') (split_on CHR ''/'' s)\<rparr>"

text \<open>\<open>a / s\<close>: an absolute right operand replaces the left one.\<close>

definition truediv :: "pypath \<Rightarrow> string \<Rightarrow> pypath" where
  "truediv a s =
     (let b = Path s
      in if is_abs b then b else \<lparr>root = root a, parts = parts a @ parts b\<rparr>)"

text \<open>\<open>p.parent\<close>: the path without its last component; a path without components is its
  own parent.\<close>

definition parent :: "pypath \<Rightarrow> pypath" where
  "parent p = p\<lparr>parts := butlast (parts p)\<rparr>"

definition path_str :: "pypath \<Rightarrow> string" where
  "path_str p =
     (if is_abs p then root p @ join ''/'' (parts p)
      else if parts p = [] then ''.'' else join ''/'' (parts p))"

subsection \<open>System calls\<close>

text \<open>The length of a name on the disk: the bytes of its UTF-8 encoding.\<close>

definition utf8_length :: "string \<Rightarrow> nat" where
  "utf8_length s = length s + length (filter (\<lambda>c. 128 \<le> (of_char c :: nat)) s)"

definition NAME_MAX :: nat where
  "NAME_MAX = 255"

definition PATH_MAX :: nat where
  "PATH_MAX = 4096"

text \<open>
  The kernel walks a path one component at a time. Before it takes a component, the place
  it stands on has to be a directory, and the component no longer than \<open>NAME_MAX\<close> bytes;
  \<open>..\<close> leads to the directory above (the root is above itself), any other name leads
  below.
\<close>

definition step :: "location \<Rightarrow> string \<Rightarrow> location" where
  "step cur c = (if c = ''..'' then butlast cur else if c = ''.'' then cur else cur @ [c])"

fun walk :: "fs \<Rightarrow> location \<Rightarrow> string list \<Rightarrow> errno + location" where
  "walk f cur [] = Inr cur"
| "walk f cur (c # cs) =
     (case lookup f cur of
        None \<Rightarrow> Inl ENOENT
      | Some Dir \<Rightarrow>
          (if NAME_MAX < utf8_length c then Inl ENAMETOOLONG else walk f (step cur c) cs)
      | Some _ \<Rightarrow> Inl ENOTDIR)"

text \<open>
  A name with a NUL character never reaches the kernel: Python raises \<open>ValueError\<close>. A
  path of \<open>PATH_MAX\<close> bytes or more is refused by the kernel before the walk.
\<close>

definition has_nul :: "pypath \<Rightarrow> bool" where
  "has_nul p = list_ex (\<lambda>c. CHR 0x00 \<in> set c) (parts p)"

definition resolve :: "fs \<Rightarrow> pypath \<Rightarrow> os_exn + location" where
  "resolve f p =
     (if has_nul p then Inl EmbeddedNull
      else if PATH_MAX \<le> utf8_length (path_str p) then Inl (OSError ENAMETOOLONG (path_str p))
      else (case walk f (if is_abs p then [] else cwd f) (parts p) of
              Inl e \<Rightarrow> Inl (OSError e (path_str p))
            | Inr q \<Rightarrow> Inr q))"

definition os_stat :: "fs \<Rightarrow> pypath \<Rightarrow> os_exn + node" where
  "os_stat f p =
     (case resolve f p of
        Inl e \<Rightarrow> Inl e
      | Inr q \<Rightarrow>
          (case lookup f q of
             None \<Rightarrow> Inl (OSError ENOENT (path_str p))
           | Some n \<Rightarrow> Inr n))"

text \<open>
  \<open>Path.exists\<close> and \<open>Path.is_dir\<close> answer \<open>False\<close> where \<open>stat\<close> fails with an error of
  pathlib's list (\<open>ENOENT\<close>, \<open>ENOTDIR\<close>, and \<open>EBADF\<close> and \<open>ELOOP\<close>, which no call raises
  here) or the name holds a NUL; any other \<open>OSError\<close> of \<open>stat\<close> is raised again.
\<close>

definition ignore_error :: "errno \<Rightarrow> bool" where
  "ignore_error e = (e = ENOENT \<or> e = ENOTDIR)"

definition exists :: "fs \<Rightarrow> pypath \<Rightarrow> os_exn + bool" where
  "exists f p =
     (case os_stat f p of
        Inl (OSError e s) \<Rightarrow> if ignore_error e then Inr False else Inl (OSError e s)
      | Inl EmbeddedNull \<Rightarrow> Inr False
      | Inr _ \<Rightarrow> Inr True)"

definition is_dir :: "fs \<Rightarrow> pypath \<Rightarrow> os_exn + bool" where
  "is_dir f p =
     (case os_stat f p of
        Inl (OSError e s) \<Rightarrow> if ignore_error e then Inr False else Inl (OSError e s)
      | Inl EmbeddedNull \<Rightarrow> Inr False
      | Inr n \<Rightarrow> Inr (n = Dir))"

text \<open>
  Reading in text mode with the default \<open>newline=None\<close> translates \<open>\r\n\<close> and a lone
  \<open>\r\<close> to \<open>\n\<close>. Writing in text mode translates \<open>\n\<close> to the line separator of the
  platform, which on POSIX is \<open>\n\<close> itself. The null device reads as the empty text and
  drops what is written to it.
\<close>

fun universal_newlines :: "string \<Rightarrow> string" where
  "universal_newlines [] = []"
| "universal_newlines [a] = (if a = CHR 0x0D then [CHR 0x0A] else [a])"
| "universal_newlines (a # b # cs) =
     (if a = CHR 0x0D \<and> b = CHR 0x0A then CHR 0x0A # universal_newlines cs
      else if a = CHR 0x0D then CHR 0x0A # universal_newlines (b # cs)
      else a # universal_newlines (b # cs))"

definition read_text :: "fs \<Rightarrow> pypath \<Rightarrow> os_exn + string" where
  "read_text f p =
     (case resolve f p of
        Inl e \<Rightarrow> Inl e
      | Inr q \<Rightarrow>
          (case lookup f q of
             None \<Rightarrow> Inl (OSError ENOENT (path_str p))
           | Some Dir \<Rightarrow> Inl (OSError EISDIR (path_str p))
           | Some Null \<Rightarrow> Inr []
           | Some (File s) \<Rightarrow> Inr (universal_newlines s)))"

text \<open>
  The calls that change the disk return the outcome (an exception or nothing) together
  with the file system they leave behind. \<open>write_text\<close> opens with \<open>O_CREAT | O_TRUNC\<close>:
  the file is created, or its content replaced.
\<close>

definition write_text :: "fs \<Rightarrow> pypath \<Rightarrow> string \<Rightarrow> (os_exn + unit) \<times> fs" where
  "write_text f p content =
     (case resolve f p of
        Inl e \<Rightarrow> (Inl e, f)
      | Inr q \<Rightarrow>
          (case lookup f q of
             Some Dir \<Rightarrow> (Inl (OSError EISDIR (path_str p)), f)
           | Some Null \<Rightarrow> (Inr (), f)
           | _ \<Rightarrow> (Inr (), store f q (File content))))"

definition os_mkdir :: "fs \<Rightarrow> pypath \<Rightarrow> (os_exn + unit) \<times> fs" where
  "os_mkdir f p =
     (case resolve f p of
        Inl e \<Rightarrow> (Inl e, f)
      | Inr q \<Rightarrow>
          (case lookup f q of
             Some _ \<Rightarrow> (Inl (OSError EEXIST (path_str p)), f)
           | None \<Rightarrow> (Inr (), store f q Dir)))"

text \<open>
  \<open>Path.mkdir(parents, exist_ok)\<close> as pathlib writes it: on \<open>FileNotFoundError\<close> it makes
  the parent (with \<open>parents=True, exist_ok=True\<close>) and tries again without \<open>parents\<close>; on
  any other \<open>OSError\<close> it raises unless \<open>exist_ok\<close> holds and \<open>is_dir\<close>, which may itself
  raise, says that the path is a directory.
\<close>

function pathlib_mkdir :: "fs \<Rightarrow> pypath \<Rightarrow> bool \<Rightarrow> bool \<Rightarrow> (os_exn + unit) \<times> fs" where
  "pathlib_mkdir f p parents exist_ok =
     (case os_mkdir f p of
        (Inr u, f') \<Rightarrow> (Inr u, f')
      | (Inl (OSError ENOENT s), f') \<Rightarrow>
          (if \<not> parents \<or> parent p = p then (Inl (OSError ENOENT s), f')
           else (case pathlib_mkdir f' (parent p) True True of
                   (Inl e, f'') \<Rightarrow> (Inl e, f'')
                 | (Inr _, f'') \<Rightarrow> pathlib_mkdir f'' p False exist_ok))
      | (Inl (OSError n s), f') \<Rightarrow>
          (if \<not> exist_ok then (Inl (OSError n s), f')
           else (case is_dir f' p of
                   Inl e \<Rightarrow> (Inl e, f')
                 | Inr b \<Rightarrow> if b then (Inr (), f') else (Inl (OSError n s), f')))
      | (Inl EmbeddedNull, f') \<Rightarrow> (Inl EmbeddedNull, f'))"
  by pat_completeness auto
termination
proof (relation "measure (\<lambda>(f, p, parents, exist_ok). 2 * length (parts p) + (if parents then 1 else 0))",
    goal_cases)
  case 1
  show ?case by simp
next
  case (2 f p parents exist_ok x y e n s)
  then have "parts p \<noteq> []"
    by (cases "parts p") (auto simp: parent_def)
  then show ?case
    using 2 by (simp add: parent_def)
next
  case 3
  then show ?case by auto
qed

text \<open>
  \<open>Path.iterdir\<close> lists the directory with \<open>os.listdir\<close>: the names directly under its
  location, in the order the disk keeps them.
\<close>

definition children :: "fs \<Rightarrow> location \<Rightarrow> string list" where
  "children f q =
     map (\<lambda>(loc, n). last loc) (filter (\<lambda>(loc, n). loc \<noteq> [] \<and> butlast loc = q) (nodes f))"

definition iterdir :: "fs \<Rightarrow> pypath \<Rightarrow> os_exn + string list" where
  "iterdir f p =
     (case resolve f p of
        Inl e \<Rightarrow> Inl e
      | Inr q \<Rightarrow>
          (case lookup f q of
             None \<Rightarrow> Inl (OSError ENOENT (path_str p))
           | Some Dir \<Rightarrow> Inr (children f q)
           | Some _ \<Rightarrow> Inl (OSError ENOTDIR (path_str p))))"

subsection \<open>read_file, write_file, list_files\<close>

text \<open>
  Each tool is a \<open>try\<close> body and an \<open>except Exception\<close> handler that turns the exception
  into the returned string. The body is the function named \<open>_try\<close>.
\<close>

definition read_file_try :: "fs \<Rightarrow> string \<Rightarrow> os_exn + string" where
  "read_file_try f file_path =
     (let workspace_path = truediv (Path ''workspace'') file_path
      in case exists f workspace_path of
           Inl e \<Rightarrow> Inl e
         | Inr True \<Rightarrow> read_text f workspace_path
         | Inr False \<Rightarrow> Inr (''File not found: '' @ file_path))"

definition read_file :: "fs \<Rightarrow> string \<Rightarrow> string" where
  "read_file f file_path =
     (case read_file_try f file_path of
        Inr s \<Rightarrow> s
      | Inl e \<Rightarrow> ''Error reading file: '' @ exc_str e)"

definition write_file_try :: "fs \<Rightarrow> string \<Rightarrow> string \<Rightarrow> (os_exn + string) \<times> fs" where
  "write_file_try f file_path content =
     (let workspace_path = truediv (Path ''workspace'') file_path
      in case pathlib_mkdir f (parent workspace_path) True True of
           (Inl e, f1) \<Rightarrow> (Inl e, f1)
         | (Inr _, f1) \<Rightarrow>
             (case write_text f1 workspace_path content of
                (Inl e, f2) \<Rightarrow> (Inl e, f2)
              | (Inr _, f2) \<Rightarrow> (Inr (''File written successfully: '' @ file_path), f2)))"

definition write_file :: "fs \<Rightarrow> string \<Rightarrow> string \<Rightarrow> string \<times> fs" where
  "write_file f file_path content =
     (case write_file_try f file_path content of
        (Inr s, f') \<Rightarrow> (s, f')
      | (Inl e, f') \<Rightarrow> (''Error writing file: '' @ exc_str e, f'))"

text \<open>\<open>exists() and is_dir()\<close>: the second call is made only when the first answers \<open>True\<close>.\<close>

definition list_files_try :: "fs \<Rightarrow> string \<Rightarrow> os_exn + string" where
  "list_files_try f directory =
     (let workspace_path = truediv (Path ''workspace'') directory
      in case exists f workspace_path of
           Inl e \<Rightarrow> Inl e
         | Inr False \<Rightarrow> Inr (''Directory not found: '' @ directory)
         | Inr True \<Rightarrow>
             (case is_dir f workspace_path of
                Inl e \<Rightarrow> Inl e
              | Inr False \<Rightarrow> Inr (''Directory not found: '' @ directory)
              | Inr True \<Rightarrow>
                  (case iterdir f workspace_path of
                     Inl e \<Rightarrow> Inl e
                   | Inr files \<Rightarrow>
                       Inr (''Files in '' @ directory @ '': '' @ join '', '' files))))"

definition list_files :: "fs \<Rightarrow> string \<Rightarrow> string" where
  "list_files f directory =
     (case list_files_try f directory of
        Inr s \<Rightarrow> s
      | Inl e \<Rightarrow> ''Error listing files: '' @ exc_str e)"

text \<open>The sandbox root, and whether a location lies under it.\<close>

definition sandbox_root :: "fs \<Rightarrow> location" where
  "sandbox_root f = cwd f @ [''workspace'']"

definition inside_sandbox :: "fs \<Rightarrow> location \<Rightarrow> bool" where
  "inside_sandbox f q = (take (length (sandbox_root f)) q = sandbox_root f)"

section \<open>The turn loop\<close>

text \<open>
  The source hands the participants to \<open>RoundRobinGroupChat\<close>, a class of the
  \<open>autogen_agentchat\<close> library whose code is not part of the repository's files, and
  \<open>start_conversation\<close> returns before any turn is taken. The turn loop below is therefore
  written from the specification (section 4.4), over the participants the source builds.
\<close>

record message =
  speaker :: string
  content :: string
  sequenceNumber :: nat

datatype orchestrator_state = Idle | Running | Terminated | Cancelled

datatype session_error = ExternalServiceError

text \<open>
  The model client of an agent is an external collaborator: given the agent and the
  history it returns the next message, or fails.
\<close>

type_synonym turn_producer = "AssistantAgent \<Rightarrow> message list \<Rightarrow> string option"

text \<open>
  Modelled from the spec: the Orchestrator's turn algorithm, whose implementation (the
  library class \<open>RoundRobinGroupChat\<close>) is missing from the source files. A cancel signal
  is looked at between turns only (\<open>cancel k\<close>: one has arrived before turn \<open>k\<close> starts);
  the current agent is \<open>turnNumber mod numberOfAgents\<close>; its message is appended with the
  next sequence number; a fault of the model client ends the session with the log so far;
  the termination condition \<open>messageCount >= maxMessages\<close> is evaluated after each append.
\<close>

function run_turns ::
  "turn_producer \<Rightarrow> (nat \<Rightarrow> bool) \<Rightarrow> AssistantAgent list \<Rightarrow> nat \<Rightarrow> nat \<Rightarrow> message list
     \<Rightarrow> orchestrator_state \<times> session_error option \<times> message list" where
  "run_turns produce cancel ags maxMessages turnNumber log =
     (if cancel turnNumber then (Cancelled, None, log)
      else
        (let current = ags ! (turnNumber mod length ags)
         in case produce current log of
              None \<Rightarrow> (Terminated, Some ExternalServiceError, log)
            | Some c \<Rightarrow>
                (let log' = log @ [\<lparr>speaker = agent_name current, content = c,
                                    sequenceNumber = length log\<rparr>]
                 in if length log' \<ge> maxMessages then (Terminated, None, log')
                    else run_turns produce cancel ags maxMessages (turnNumber + 1) log')))"
  by pat_completeness auto
termination
  by (relation "measure (\<lambda>(produce, cancel, ags, maxMessages, turnNumber, log). maxMessages - length log)")
     auto

text \<open>
  Modelled from the spec: \<open>start\<close>. \<open>Idle\<close> is entered with a non-empty list of agents and
  \<open>maxMessages > 0\<close>; a session without either is never started.
\<close>

definition start ::
  "turn_producer \<Rightarrow> (nat \<Rightarrow> bool) \<Rightarrow> AssistantAgent list \<Rightarrow> nat
     \<Rightarrow> (orchestrator_state \<times> session_error option \<times> message list) option" where
  "start produce cancel ags maxMessages =
     (if ags = [] \<or> maxMessages = 0 then None
      else Some (run_turns produce cancel ags maxMessages 0 []))"

text \<open>The session a team of the source describes: its participants and its message bound.\<close>

definition run_team ::
  "turn_producer \<Rightarrow> (nat \<Rightarrow> bool) \<Rightarrow> team
     \<Rightarrow> (orchestrator_state \<times> session_error option \<times> message list) option" where
  "run_team produce cancel t = start produce cancel (participants t) (max_messages t)"

section \<open>Vocabulary of the statements\<close>

text \<open>
  A descriptor set is well formed when every server name maps to a dict, the shape
  \<open>get_available_tools\<close> reads with \<open>server_config.get\<close>.
\<close>

definition well_formed :: "(string \<times> json) list \<Rightarrow> bool" where
  "well_formed kvs = list_all (\<lambda>(k, v). case v of JObj _ \<Rightarrow> True | _ \<Rightarrow> False) kvs"

text \<open>A descriptor set with both capability groups, the first with a description.\<close>

definition two_servers :: "(string \<times> json) list" where
  "two_servers =
     [(''fs'', JObj [(''description'', JStr ''File system operations'')]),
      (''github'', JObj [])]"

text \<open>A model client, and the systems \<open>init\<close> builds from it for two descriptor files.\<close>

definition a_client :: model_client where
  "a_client =
     \<lparr>mc_model = ''llama3-8b-8192'', mc_api_key = ''k'',
      mc_base_url = ''https://api.groq.com/openai/v1''\<rparr>"

definition empty_system :: MultiAgentSystem where
  "empty_system =
     \<lparr>groq_client = a_client, servers = JObj [], agents = [], the_team = None,
      tool_functions = []\<rparr>"

definition fs_only_doc :: resource where
  "fs_only_doc = Doc (JObj [(''servers'', JObj [(''fs'', JObj [])])])"

definition fs_only_system :: MultiAgentSystem where
  "fs_only_system =
     \<lparr>groq_client = a_client, servers = JObj [(''fs'', JObj [])], agents = [],
      the_team = None,
      tool_functions =
        [(''read_file'', ReadFile), (''write_file'', WriteFile), (''list_files'', ListFiles)]\<rparr>"

definition short_config :: AgentConfig where
  "short_config =
     \<lparr>name = ''Helper'', role = ''Assistant'', system_message = ''Be brief.'',
      model_client = a_client\<rparr>"

text \<open>
  The part of the template of \<open>create_agent\<close> below the line of tool names: it holds no
  placeholder.
\<close>

definition fixed_block :: string where
  "fixed_block =
     unlines_py
       ([''        '',
         ''        You can use these tools to accomplish tasks:'']
        @ tool_hints @
        [''        '',
         ''        Always collaborate effectively with other agents and provide clear, actionable responses.'',
         ''        ''])"

text \<open>The team \<open>setup_research_team\<close> stores when the registry holds the file tools.\<close>

definition research_team :: team where
  "research_team =
     \<lparr>participants = map snd (agents (setup_research_team fs_only_system)),
      max_messages = 20\<rparr>"


text \<open>
  A second disk: besides the workspace with a subdirectory and a file, it holds a file in
  \<open>/home\<close>, outside the workspace, an empty root directory \<open>/srv\<close>, and the null device.
\<close>

definition disk1 :: fs where
  "disk1 =
     \<lparr>nodes = [([], Dir), ([''dev''], Dir), ([''dev'', ''null''], Null), ([''srv''], Dir),
               ([''home''], Dir), ([''home'', ''notes.txt''], File ''private''),
               ([''home'', ''workspace''], Dir),
               ([''home'', ''workspace'', ''data''], Dir),
               ([''home'', ''workspace'', ''f.txt''], File ''old'')],
      cwd = [''home'']\<rparr>"

text \<open>A name of 300 bytes, longer than a directory entry may be.\<close>

definition long_name :: string where
  "long_name = replicate 300 (CHR ''a'')"

text \<open>
  The locations a walk stands on, from its start to its end: the last one is the
  location the path leads to, the others are the places that have to be directories.
\<close>

fun trail :: "location \<Rightarrow> string list \<Rightarrow> location list" where
  "trail cur [] = [cur]"
| "trail cur (c # cs) = cur # trail (step cur c) cs"

definition start_of :: "fs \<Rightarrow> pypath \<Rightarrow> location" where
  "start_of f p = (if is_abs p then [] else cwd f)"

definition target :: "fs \<Rightarrow> pypath \<Rightarrow> location" where
  "target f p = last (trail (start_of f p) (parts p))"

definition on_the_way :: "fs \<Rightarrow> pypath \<Rightarrow> location list" where
  "on_the_way f p = butlast (trail (start_of f p) (parts p))"

text \<open>The names of a path are within the limits of the system.\<close>

definition names_ok :: "pypath \<Rightarrow> bool" where
  "names_ok p =
     (\<not> has_nul p \<and> utf8_length (path_str p) < PATH_MAX
      \<and> list_all (\<lambda>c. utf8_length c \<le> NAME_MAX) (parts p))"

text \<open>
  A disk on which a file can be written at a path: the walk starts in a directory, every
  place on the way is a directory or has no node yet, and the place the path leads to is
  none of them and holds no node or a regular file.
\<close>

definition can_write :: "fs \<Rightarrow> pypath \<Rightarrow> bool" where
  "can_write f p =
     (names_ok p
      \<and> lookup f (start_of f p) = Some Dir
      \<and> list_all (\<lambda>q. lookup f q = None \<or> lookup f q = Some Dir) (on_the_way f p)
      \<and> target f p \<notin> set (on_the_way f p)
      \<and> (case lookup f (target f p) of
            None \<Rightarrow> True
          | Some (File _) \<Rightarrow> True
          | Some _ \<Rightarrow> False))"

declare pathlib_mkdir.simps [simp del]

declare run_turns.simps [simp del]

lemmas fs_defs =
  write_file_def write_file_try_def read_file_def read_file_try_def list_files_def
  list_files_try_def truediv_def Path_def is_abs_def parent_def path_str_def resolve_def
  has_nul_def
  os_stat_def exists_def is_dir_def read_text_def write_text_def os_mkdir_def lookup_def
  store_def step_def dict_set_def iterdir_def children_def sandbox_root_def
  inside_sandbox_def exc_str_def strerror_def utf8_length_def NAME_MAX_def PATH_MAX_def
  ignore_error_def

section \<open>The registry\<close>

lemma tool_entry_dict:
  "tool_entry k (JObj c) = Inr t \<Longrightarrow>
     ti_name t = k \<and> Inr (ti_description t) = py_get (JObj c) ''description'' (JStr [])"
  by (auto simp: tool_entry_def)

lemma tool_entry_total: "\<exists>t. tool_entry k (JObj c) = Inr t"
  by (simp add: tool_entry_def)

lemma tools_loop_wf:
  "well_formed kvs \<Longrightarrow>
   \<exists>ts. tools_loop kvs acc = Inr (acc @ ts) \<and> length ts = length kvs
      \<and> map ti_name ts = map fst kvs
      \<and> map (\<lambda>t. Inr (ti_description t)) ts
          = map (\<lambda>(k, v). py_get v ''description'' (JStr [])) kvs"
proof (induction kvs arbitrary: acc)
  case Nil
  then show ?case by simp
next
  case (Cons kv kvs)
  obtain k v where kv: "kv = (k, v)" by (cases kv)
  from Cons.prems kv obtain c where v: "v = JObj c" and r: "well_formed kvs"
    by (cases v) (simp_all add: well_formed_def)
  from tool_entry_total obtain t where t: "tool_entry k (JObj c) = Inr t" by blast
  note tp = tool_entry_dict [OF t]
  from Cons.IH [OF r, of "acc @ [t]"] obtain ts where
    ts: "tools_loop kvs (acc @ [t]) = Inr ((acc @ [t]) @ ts)" "length ts = length kvs"
      "map ti_name ts = map fst kvs"
      "map (\<lambda>t. Inr (ti_description t)) ts
         = map (\<lambda>(k, v). py_get v ''description'' (JStr [])) kvs"
    by blast
  show ?case
    by (rule exI [of _ "t # ts"]) (use tp in \<open>simp add: kv v t ts\<close>)
qed

text \<open>
  C6. For a well-formed descriptor set of size N, \<open>get_available_tools\<close> returns N entries;
  their names are the configuration keys in the dict's iteration order, and each entry
  carries the description \<open>server_config.get("description", "")\<close> of its server.
\<close>

theorem listTools_names:
  "well_formed kvs \<Longrightarrow>
   \<exists>tools. get_available_tools (JObj kvs) = Inr tools \<and> length tools = length kvs
      \<and> map ti_name tools = map fst kvs
      \<and> map (\<lambda>t. Inr (ti_description t)) tools
          = map (\<lambda>(k, v). py_get v ''description'' (JStr [])) kvs"
  using tools_loop_wf [of kvs "[]"] by simp

theorem listTools_names_witness:
  "well_formed two_servers \<and>
   (\<exists>tools. get_available_tools (JObj two_servers) = Inr tools \<and> length tools = 2
      \<and> map ti_name tools = [''fs'', ''github'']
      \<and> map ti_description tools = [JStr ''File system operations'', JStr []])"
proof -
  have wf: "well_formed two_servers"
    by (simp add: two_servers_def well_formed_def)
  from listTools_names [OF wf] obtain tools where
    "get_available_tools (JObj two_servers) = Inr tools"
    "length tools = length two_servers"
    "map ti_name tools = map fst two_servers"
    "map (\<lambda>t. Inr (ti_description t)) tools
       = map (\<lambda>(k, v). py_get v ''description'' (JStr [])) two_servers"
    by blast
  then show ?thesis using wf
    by (auto simp add: two_servers_def)
qed

lemma create_tool_functions_dict:
  "create_tool_functions (JObj kvs) =
     Inr ((if ''fs'' \<in> fst ` set kvs
           then [(''read_file'', ReadFile), (''write_file'', WriteFile),
                 (''list_files'', ListFiles)]
           else [])
          @ (if ''github'' \<in> fst ` set kvs
             then [(''github_search'', GithubSearch),
                   (''github_list_repos'', GithubListRepos),
                   (''github_get_file'', GithubGetFile)]
             else []))"
  by (simp add: create_tool_functions_def dict_set_def)

text \<open>
  C5. The registry is built from group membership alone. For every configuration dict,
  the three file-system tools are built exactly when the key \<open>fs\<close> is present and the three
  remote-repository tools exactly when the key \<open>github\<close> is present, in this order; the
  build never fails on a dict, and every other key is ignored: dropping all of them
  leaves the result unchanged.
\<close>

theorem registry_groups:
  "create_tool_functions (JObj kvs) =
     Inr ((if ''fs'' \<in> fst ` set kvs
           then [(''read_file'', ReadFile), (''write_file'', WriteFile),
                 (''list_files'', ListFiles)]
           else [])
          @ (if ''github'' \<in> fst ` set kvs
             then [(''github_search'', GithubSearch),
                   (''github_list_repos'', GithubListRepos),
                   (''github_get_file'', GithubGetFile)]
             else []))
   \<and> create_tool_functions (JObj (filter (\<lambda>(k, v). k = ''fs'' \<or> k = ''github'') kvs))
       = create_tool_functions (JObj kvs)"
proof -
  have a: "(''fs'' \<in> fst ` set (filter (\<lambda>(k, v). k = ''fs'' \<or> k = ''github'') kvs))
             = (''fs'' \<in> fst ` set kvs)"
    by force
  have b: "(''github'' \<in> fst ` set (filter (\<lambda>(k, v). k = ''fs'' \<or> k = ''github'') kvs))
             = (''github'' \<in> fst ` set kvs)"
    by force
  show ?thesis
    unfolding create_tool_functions_dict a b by simp
qed

theorem registry_groups_witness:
  "create_tool_functions (JObj [(''fs'', JObj []), (''web'', JObj [])]) =
     Inr [(''read_file'', ReadFile), (''write_file'', WriteFile), (''list_files'', ListFiles)]
   \<and> create_tool_functions (JObj [(''fs'', JObj [])])
       = create_tool_functions (JObj [(''fs'', JObj []), (''web'', JObj [])])"
  using registry_groups [of "[(''fs'', JObj []), (''web'', JObj [])]"] by simp

section \<open>Loading the descriptor file\<close>

lemma init_absent: "init None (Some ''k'') Absent = Inr empty_system"
  by (simp add: init_def GroqModelClient_def py_or_def load_config_def empty_system_def
        a_client_def create_tool_functions_def)

lemma init_fs_only: "init None (Some ''k'') fs_only_doc = Inr fs_only_system"
  by (simp add: init_def GroqModelClient_def py_or_def load_config_def fs_only_doc_def
        fs_only_system_def a_client_def create_tool_functions_def dict_set_def)

text \<open>
  Against C2: with no descriptor file, \<open>load_config\<close> raises nothing. It logs a warning
  and leaves \<open>servers\<close> empty, and the constructor of the system completes.
\<close>

theorem load_config_absent_counterexample:
  "load_config Absent = Inr (JObj [], NotFoundWarning)
   \<and> init None (Some ''k'') Absent = Inr empty_system"
  by (simp add: init_absent) (simp add: load_config_def)

text \<open>
  C2, as the code has it. Given the path of the descriptor file, \<open>load_config\<close> yields the
  mapping from server name to configuration when the file parses to a dict whose
  \<open>"servers"\<close> entry is a dict, and the empty mapping when the entry is missing. A missing
  file is no failure: a warning is logged, the mapping stays empty and the system starts,
  without tools. The call fails, with the exception of the failing operation, when the path
  is a directory or may not be read, the bytes are not text, the text is not JSON, the top
  level is not a dict, or the \<open>"servers"\<close> entry is null, a number or a boolean; whenever
  it fails, the constructor of the system fails too and no system exists. A \<open>"servers"\<close>
  entry that is a list or a string is taken as it is: nothing checks that it is a mapping.
\<close>

theorem load_config_outcomes:
  "load_config Absent = Inr (JObj [], NotFoundWarning)
   \<and> (GroqModelClient api_key env_key ''llama3-8b-8192'' = Inr client \<longrightarrow>
        init api_key env_key Absent
          = Inr \<lparr>groq_client = client, servers = JObj [], agents = [], the_team = None,
                 tool_functions = []\<rparr>)
   \<and> load_config Directory = Inl IsADirectoryError
   \<and> load_config Unreadable = Inl PermissionError
   \<and> load_config NotText = Inl UnicodeDecodeError
   \<and> load_config NotJSON = Inl JSONDecodeError
   \<and> load_config (Doc (JObj kvs)) =
        (case map_of kvs ''servers'' of
           None \<Rightarrow> Inr (JObj [], LoadedInfo 0)
         | Some (JObj s) \<Rightarrow> Inr (JObj s, LoadedInfo (length s))
         | Some (JArr xs) \<Rightarrow> Inr (JArr xs, LoadedInfo (length xs))
         | Some (JStr t) \<Rightarrow> Inr (JStr t, LoadedInfo (length t))
         | Some _ \<Rightarrow> Inl TypeError)
   \<and> load_config (Doc (JArr xs)) = Inl AttributeError
   \<and> load_config (Doc (JStr t)) = Inl AttributeError
   \<and> load_config (Doc (JNum n)) = Inl AttributeError
   \<and> load_config (Doc (JBool b)) = Inl AttributeError
   \<and> load_config (Doc JNull) = Inl AttributeError
   \<and> (load_config r = Inl e \<longrightarrow> (\<exists>e'. init api_key env_key r = Inl e'))"
  by (auto simp add: load_config_def init_def create_tool_functions_def
        split: sum.splits option.splits json.splits)

theorem load_config_outcomes_witness:
  "GroqModelClient None (Some ''k'') ''llama3-8b-8192'' = Inr a_client
   \<and> init None (Some ''k'') Absent = Inr empty_system
   \<and> load_config (Doc (JObj [(''servers'', JObj two_servers)]))
       = Inr (JObj two_servers, LoadedInfo 2)
   \<and> load_config (Doc (JObj [])) = Inr (JObj [], LoadedInfo 0)
   \<and> load_config (Doc (JObj [(''servers'', JNull)])) = Inl TypeError
   \<and> load_config (Doc (JObj [(''servers'', JArr [JStr ''fs''])]))
       = Inr (JArr [JStr ''fs''], LoadedInfo 1)
   \<and> load_config NotJSON = Inl JSONDecodeError
   \<and> init None (Some ''k'') NotJSON = Inl JSONDecodeError
   \<and> init None (Some ''k'') (Doc (JObj [(''servers'', JNull)])) = Inl TypeError"
proof -
  have g: "GroqModelClient None (Some ''k'') ''llama3-8b-8192'' = Inr a_client"
    by (simp add: GroqModelClient_def py_or_def a_client_def)
  from load_config_outcomes [of None "Some ''k''" a_client "[(''servers'', JObj two_servers)]"] g
  have a: "init None (Some ''k'') Absent = Inr empty_system"
    and b: "load_config (Doc (JObj [(''servers'', JObj two_servers)]))
       = Inr (JObj two_servers, LoadedInfo 2)"
    by (simp_all add: empty_system_def two_servers_def)
  from load_config_outcomes [of None "Some ''k''" a_client "[]"]
  have c: "load_config (Doc (JObj [])) = Inr (JObj [], LoadedInfo 0)"
    and j: "load_config NotJSON = Inl JSONDecodeError"
    by simp_all
  from load_config_outcomes [of None "Some ''k''" a_client "[(''servers'', JNull)]"]
  have d: "load_config (Doc (JObj [(''servers'', JNull)])) = Inl TypeError"
    by simp
  from load_config_outcomes [of None "Some ''k''" a_client "[(''servers'', JArr [JStr ''fs''])]"]
  have e: "load_config (Doc (JObj [(''servers'', JArr [JStr ''fs''])]))
       = Inr (JArr [JStr ''fs''], LoadedInfo 1)"
    by simp
  have i: "init None (Some ''k'') NotJSON = Inl JSONDecodeError"
    "init None (Some ''k'') (Doc (JObj [(''servers'', JNull)])) = Inl TypeError"
    by (simp_all add: init_def g load_config_def)
  from g a b c d e j i show ?thesis by simp
qed

section \<open>Creating agents\<close>

text \<open>
  Against C8: with only the file-system group configured, the prompt of an agent still
  carries the usage hint of \<open>github_search\<close>, a tool that is not bound to the agent; and
  the prompt does not begin with the base prompt.
\<close>

theorem prompt_catalog_counterexample:
  "init None (Some ''k'') fs_only_doc = Inr fs_only_system
   \<and> is_substring ''- github_search(query): Search GitHub repositories''
        (agent_system_message (create_agent fs_only_system short_config))
   \<and> GithubSearch \<notin> set (agent_tools (create_agent fs_only_system short_config))
   \<and> ''github_search'' \<notin> set (map fst (tool_functions fs_only_system))
   \<and> take (length (system_message short_config))
        (agent_system_message (create_agent fs_only_system short_config))
       \<noteq> system_message short_config"
  by (simp add: init_fs_only)
     (simp add: create_agent_def fs_only_system_def short_config_def
        enhanced_system_message_def unlines_py_def nl_def tool_hints_def)

text \<open>
  C8, as the code has it. The effective system prompt is a newline and the indentation of
  the template, the base prompt, an empty line, the line \<open>Available tools:\<close> with the names
  of the bound tools joined by commas in the order of the bound tools, and then a fixed
  block that does not depend on the agent: the usage hints of all six tools, whichever are
  bound, and the standing instruction to collaborate and give actionable responses.
\<close>

theorem prompt_shape:
  "agent_system_message (create_agent self config) =
     nl @ ''        '' @ system_message config @ nl
     @ ''        '' @ nl
     @ ''        Available tools: '' @ join '', '' (map fst (tool_functions self)) @ nl
     @ fixed_block
   \<and> zip (map fst (tool_functions self)) (agent_tools (create_agent self config))
       = tool_functions self"
  by (simp add: create_agent_def enhanced_system_message_def unlines_py_def fixed_block_def
        tool_hints_def zip_map_fst_snd)

theorem prompt_shape_witness:
  "agent_system_message (create_agent fs_only_system short_config) =
     nl @ ''        Be brief.'' @ nl
     @ ''        '' @ nl
     @ ''        Available tools: read_file, write_file, list_files'' @ nl
     @ fixed_block
   \<and> agent_tools (create_agent fs_only_system short_config) = [ReadFile, WriteFile, ListFiles]"
  using prompt_shape [of fs_only_system short_config]
  by (simp add: fs_only_system_def short_config_def create_agent_def)

text \<open>
  C10. Every agent is bound to the whole registry: \<open>create_agent\<close> passes all values of
  \<open>tool_functions\<close>, so two agents created from the same system have the same tools
  whatever their configuration; the four agents of either preset team have exactly these
  tools, and setting a team up leaves the registry as it was.
\<close>

theorem same_tools:
  "agent_tools (create_agent self c1) = map snd (tool_functions self)
   \<and> agent_tools (create_agent self c1) = agent_tools (create_agent self c2)
   \<and> map agent_tools (map snd (agents (setup_research_team self)))
       = replicate 4 (map snd (tool_functions self))
   \<and> map agent_tools (map snd (agents (setup_development_team self)))
       = replicate 4 (map snd (tool_functions self))
   \<and> tool_functions (setup_research_team self) = tool_functions self
   \<and> tool_functions (setup_development_team self) = tool_functions self"
  by (simp add: create_agent_def setup_research_team_def setup_development_team_def Let_def
        numeral_eq_Suc)

theorem same_tools_witness:
  "agent_tools (create_agent fs_only_system short_config) = [ReadFile, WriteFile, ListFiles]
   \<and> agent_tools (create_agent fs_only_system (tester_config a_client))
       = [ReadFile, WriteFile, ListFiles]
   \<and> map agent_tools (map snd (agents (setup_research_team fs_only_system)))
       = [[ReadFile, WriteFile, ListFiles], [ReadFile, WriteFile, ListFiles],
          [ReadFile, WriteFile, ListFiles], [ReadFile, WriteFile, ListFiles]]"
proof -
  have t: "map snd (tool_functions fs_only_system) = [ReadFile, WriteFile, ListFiles]"
    by (simp add: fs_only_system_def)
  from same_tools [of fs_only_system short_config "tester_config a_client"]
  show ?thesis
    unfolding t by (auto simp add: numeral_eq_Suc)
qed

section \<open>The turn loop keeps the order of the participants\<close>

lemma run_turns_round_robin:
  "run_turns produce cancel ags M turn log = (st, err, log') \<Longrightarrow>
   turn = length log \<Longrightarrow>
   (\<forall>i < length log.
       produce (ags ! (i mod length ags)) (take i log) = Some (content (log ! i))
       \<and> speaker (log ! i) = agent_name (ags ! (i mod length ags))
       \<and> sequenceNumber (log ! i) = i) \<Longrightarrow>
   (\<forall>i < length log'.
       produce (ags ! (i mod length ags)) (take i log') = Some (content (log' ! i))
       \<and> speaker (log' ! i) = agent_name (ags ! (i mod length ags))
       \<and> sequenceNumber (log' ! i) = i)"
proof (induction produce cancel ags M turn log rule: run_turns.induct)
  case (1 produce cancel ags maxMessages turnNumber log)
  show ?case
  proof (cases "cancel turnNumber")
    case True
    with "1.prems" show ?thesis by (simp add: run_turns.simps)
  next
    case nc: False
    show ?thesis
    proof (cases "produce (ags ! (turnNumber mod length ags)) log")
      case None
      with nc "1.prems" show ?thesis by (simp add: run_turns.simps)
    next
      case (Some c)
      define m where
        "m = \<lparr>speaker = agent_name (ags ! (turnNumber mod length ags)), content = c,
              sequenceNumber = length log\<rparr>"
      have inv: "\<forall>i < length (log @ [m]).
          produce (ags ! (i mod length ags)) (take i (log @ [m]))
            = Some (content ((log @ [m]) ! i))
          \<and> speaker ((log @ [m]) ! i) = agent_name (ags ! (i mod length ags))
          \<and> sequenceNumber ((log @ [m]) ! i) = i"
        using "1.prems"(2,3) Some by (auto simp: nth_append m_def less_Suc_eq)
      show ?thesis
      proof (cases "length (log @ [m]) \<ge> maxMessages")
        case True
        with nc Some "1.prems"(1) have "log' = log @ [m]"
          by (simp add: run_turns.simps [of produce cancel ags maxMessages turnNumber log] m_def)
        with inv show ?thesis by simp
      next
        case False
        with nc Some "1.prems"(1)
        have r: "run_turns produce cancel ags maxMessages (turnNumber + 1) (log @ [m])
                   = (st, err, log')"
          by (simp add: run_turns.simps [of produce cancel ags maxMessages turnNumber log] m_def)
        have len: "turnNumber + 1 = length (log @ [m])"
          using "1.prems"(2) by simp
        from "1.IH" [OF nc refl Some refl, folded m_def, OF False r len inv]
        show ?thesis .
      qed
    qed
  qed
qed

lemma research_team_names:
  "the_team (setup_research_team fs_only_system) = Some research_team
   \<and> map agent_name (participants research_team)
       = [''Researcher'', ''Analyst'', ''TechnicalExpert'', ''Coordinator'']"
  by (simp add: research_team_def setup_research_team_def Let_def create_agent_def
        researcher_config_def analyst_config_def technical_expert_config_def
        coordinator_config_def)

text \<open>
  C9. A session over a non-empty list of agents and a positive message bound always
  ends, and for every turn \<open>i\<close> that was executed (counted from 0) the message of the turn
  is the one the model client of \<open>agents[i mod A]\<close> produced from the messages before it:
  it carries that agent's name and the sequence number \<open>i\<close>. This holds whatever the model
  clients answer and whenever a cancel signal arrives.
\<close>

theorem round_robin:
  assumes "ags \<noteq> []" and "0 < M"
  shows "\<exists>st err log. start produce cancel ags M = Some (st, err, log)
           \<and> (\<forall>i < length log.
                 produce (ags ! (i mod length ags)) (take i log) = Some (content (log ! i))
                 \<and> speaker (log ! i) = agent_name (ags ! (i mod length ags))
                 \<and> sequenceNumber (log ! i) = i)"
proof -
  obtain st err log where r: "run_turns produce cancel ags M 0 [] = (st, err, log)"
    by (cases "run_turns produce cancel ags M 0 []")
  with assms have s: "start produce cancel ags M = Some (st, err, log)"
    by (simp add: start_def)
  from run_turns_round_robin [OF r] have
    "\<forall>i < length log.
        produce (ags ! (i mod length ags)) (take i log) = Some (content (log ! i))
        \<and> speaker (log ! i) = agent_name (ags ! (i mod length ags))
        \<and> sequenceNumber (log ! i) = i"
    by simp
  with s show ?thesis by blast
qed

theorem round_robin_witness:
  "participants research_team \<noteq> [] \<and> 0 < max_messages research_team
   \<and> map_option (\<lambda>(st, err, log). (st, err, map speaker log, map content log))
         (run_team (\<lambda>a h. Some (''turn '' @ agent_name a)) (\<lambda>k. k = 6) research_team)
       = Some (Cancelled, None,
           [''Researcher'', ''Analyst'', ''TechnicalExpert'', ''Coordinator'',
            ''Researcher'', ''Analyst''],
           [''turn Researcher'', ''turn Analyst'', ''turn TechnicalExpert'',
            ''turn Coordinator'', ''turn Researcher'', ''turn Analyst''])"
proof -
  have a: "participants research_team \<noteq> []"
    by (simp add: research_team_def setup_research_team_def Let_def)
  have b: "0 < max_messages research_team"
    by (simp add: research_team_def)
  have l: "length (participants research_team) = 4"
    by (simp add: research_team_def setup_research_team_def Let_def)
  from round_robin [OF a b, of "\<lambda>a h. Some (''turn '' @ agent_name a)" "\<lambda>k. k = 6"]
  obtain st err log where
    s: "run_team (\<lambda>a h. Some (''turn '' @ agent_name a)) (\<lambda>k. k = 6) research_team
          = Some (st, err, log)"
    unfolding run_team_def by blast
  have e: "run_team (\<lambda>a h. Some (''turn '' @ agent_name a)) (\<lambda>k. k = 6) research_team
      = Some (Cancelled, None,
          map (\<lambda>(i, n). \<lparr>speaker = n, content = ''turn '' @ n, sequenceNumber = i\<rparr>)
            [(0, ''Researcher''), (1, ''Analyst''), (2, ''TechnicalExpert''),
             (3, ''Coordinator''), (4, ''Researcher''), (5, ''Analyst'')])"
    by (simp add: run_team_def start_def run_turns.simps research_team_def
          setup_research_team_def Let_def create_agent_def researcher_config_def
          analyst_config_def technical_expert_config_def coordinator_config_def)
  from s e a b show ?thesis by simp
qed

section \<open>Properties of the file-system tools\<close>

subsection \<open>Storing a node\<close>

lemma map_of_replace_other:
  "x \<noteq> k \<Longrightarrow>
   map_of (map (\<lambda>(k', v'). if k' = k then (k', v) else (k', v')) d) x = map_of d x"
  by (induction d) auto

lemma map_of_replace_same:
  "k \<in> fst ` set d \<Longrightarrow>
   map_of (map (\<lambda>(k', v'). if k' = k then (k', v) else (k', v')) d) k = Some v"
  by (induction d) auto

lemma map_of_dict_set: "map_of (dict_set d k v) x = (if x = k then Some v else map_of d x)"
proof (cases "k \<in> set (map fst d)")
  case True
  then show ?thesis
    by (cases "x = k") (simp_all add: dict_set_def map_of_replace_other map_of_replace_same)
next
  case False
  then have "map_of d k = None"
    by (simp add: map_of_eq_None_iff)
  with False show ?thesis
    by (auto simp: dict_set_def map_add_def split: option.splits)
qed

lemma lookup_store: "lookup (store f q n) x = (if x = q then Some n else lookup f x)"
  by (simp add: lookup_def store_def map_of_dict_set)

lemma cwd_store: "cwd (store f q n) = cwd f"
  by (simp add: store_def)

subsection \<open>Walks\<close>

lemma trail_not_empty [simp]: "trail cur cs \<noteq> []"
  by (cases cs) simp_all

lemma trail_snoc: "trail cur (cs @ [c]) = trail cur cs @ [step (last (trail cur cs)) c]"
  by (induction cs arbitrary: cur) simp_all

lemma butlast_trail_Cons: "butlast (trail cur (c # cs)) = cur # butlast (trail (step cur c) cs)"
  by simp

lemma last_trail_Cons: "last (trail cur (c # cs)) = last (trail (step cur c) cs)"
  by simp

text \<open>A walk depends on the disk only through the nodes on its way.\<close>

lemma walk_dirs:
  "\<forall>q \<in> set (butlast (trail cur cs)). lookup f q = Some Dir \<Longrightarrow>
   \<forall>c \<in> set cs. utf8_length c \<le> NAME_MAX \<Longrightarrow>
   walk f cur cs = Inr (last (trail cur cs))"
proof (induction cs arbitrary: cur)
  case Nil
  then show ?case by simp
next
  case (Cons c cs)
  from Cons.prems(1) have d: "lookup f cur = Some Dir"
    and r: "\<forall>q \<in> set (butlast (trail (step cur c) cs)). lookup f q = Some Dir"
    by (simp_all add: butlast_trail_Cons)
  from Cons.prems(2) have n: "\<not> NAME_MAX < utf8_length c"
    and ns: "\<forall>c \<in> set cs. utf8_length c \<le> NAME_MAX"
    by auto
  from Cons.IH [OF r ns] d n show ?case
    by (simp add: last_trail_Cons)
qed

lemma walk_absent:
  "\<forall>q \<in> set (butlast (trail cur cs)). lookup f q = None \<or> lookup f q = Some Dir \<Longrightarrow>
   \<exists>q \<in> set (butlast (trail cur cs)). lookup f q = None \<Longrightarrow>
   \<forall>c \<in> set cs. utf8_length c \<le> NAME_MAX \<Longrightarrow>
   walk f cur cs = Inl ENOENT"
proof (induction cs arbitrary: cur)
  case Nil
  then show ?case by simp
next
  case (Cons c cs)
  from Cons.prems(3) have n: "\<not> NAME_MAX < utf8_length c"
    and ns: "\<forall>c \<in> set cs. utf8_length c \<le> NAME_MAX"
    by auto
  show ?case
  proof (cases "lookup f cur")
    case None
    then show ?thesis by simp
  next
    case (Some nd)
    with Cons.prems(1) have d: "lookup f cur = Some Dir"
      by (auto simp: butlast_trail_Cons)
    from Cons.prems(1) have r: "\<forall>q \<in> set (butlast (trail (step cur c) cs)).
        lookup f q = None \<or> lookup f q = Some Dir"
      by (simp add: butlast_trail_Cons)
    from Cons.prems(2) d have e: "\<exists>q \<in> set (butlast (trail (step cur c) cs)). lookup f q = None"
      by (auto simp: butlast_trail_Cons)
    from Cons.IH [OF r e ns] d n show ?thesis by simp
  qed
qed

subsection \<open>Lengths of paths\<close>

lemma utf8_length_append: "utf8_length (a @ b) = utf8_length a + utf8_length b"
  by (simp add: utf8_length_def)

lemma utf8_length_Nil: "utf8_length [] = 0"
  by (simp add: utf8_length_def)

lemma utf8_length_Cons:
  "utf8_length (x # xs) = (if 128 \<le> (of_char x :: nat) then 2 else 1) + utf8_length xs"
  by (simp add: utf8_length_def)

lemma utf8_length_pos: "c \<noteq> [] \<Longrightarrow> 0 < utf8_length c"
  by (simp add: utf8_length_def)

lemma join_snoc: "join sep (xs @ [x]) = (if xs = [] then x else join sep xs @ sep @ x)"
  by (induction sep xs rule: join.induct) simp_all

lemma path_str_parent_le:
  assumes "\<forall>c \<in> set (parts p). c \<noteq> []"
  shows "utf8_length (path_str (parent p)) \<le> utf8_length (path_str p)"
proof (cases "parts p" rule: rev_cases)
  case Nil
  then show ?thesis by (simp add: parent_def path_str_def is_abs_def)
next
  case (snoc cs c)
  with assms have "c \<noteq> []" by simp
  then have "0 < utf8_length c" by (rule utf8_length_pos)
  then show ?thesis
    using snoc
    by (auto simp: parent_def path_str_def is_abs_def join_snoc utf8_length_append
          utf8_length_Cons utf8_length_Nil)
qed

lemma names_ok_parent:
  assumes "names_ok p" and "\<forall>c \<in> set (parts p). c \<noteq> []"
  shows "names_ok (parent p)"
proof -
  from assms(1) have a: "\<not> has_nul p" and b: "utf8_length (path_str p) < PATH_MAX"
    and c: "list_all (\<lambda>c. utf8_length c \<le> NAME_MAX) (parts p)"
    by (simp_all add: names_ok_def)
  from a have "\<not> has_nul (parent p)"
    by (auto simp: has_nul_def parent_def list_ex_iff dest: in_set_butlastD)
  moreover from b path_str_parent_le [OF assms(2)]
  have "utf8_length (path_str (parent p)) < PATH_MAX" by simp
  moreover from c have "list_all (\<lambda>c. utf8_length c \<le> NAME_MAX) (parts (parent p))"
    by (auto simp: parent_def list_all_iff dest: in_set_butlastD)
  ultimately show ?thesis by (simp add: names_ok_def)
qed

subsection \<open>Resolving a path\<close>

lemma same_cwd:
  assumes "cwd f' = cwd f"
  shows "start_of f' p = start_of f p" "target f' p = target f p" "on_the_way f' p = on_the_way f p"
  using assms by (simp_all add: start_of_def target_def on_the_way_def)

lemma resolve_ok:
  assumes "names_ok p" and "\<forall>q \<in> set (on_the_way f p). lookup f q = Some Dir"
  shows "resolve f p = Inr (target f p)"
proof -
  from assms(1) have n: "\<not> has_nul p" "\<not> PATH_MAX \<le> utf8_length (path_str p)"
    "\<forall>c \<in> set (parts p). utf8_length c \<le> NAME_MAX"
    by (simp_all add: names_ok_def list_all_iff)
  from walk_dirs [OF assms(2) [unfolded on_the_way_def] n(3)] n(1,2) show ?thesis
    by (simp add: resolve_def target_def start_of_def)
qed

lemma resolve_absent:
  assumes "names_ok p"
    and "\<forall>q \<in> set (on_the_way f p). lookup f q = None \<or> lookup f q = Some Dir"
    and "\<exists>q \<in> set (on_the_way f p). lookup f q = None"
  shows "resolve f p = Inl (OSError ENOENT (path_str p))"
proof -
  from assms(1) have n: "\<not> has_nul p" "\<not> PATH_MAX \<le> utf8_length (path_str p)"
    "\<forall>c \<in> set (parts p). utf8_length c \<le> NAME_MAX"
    by (simp_all add: names_ok_def list_all_iff)
  from walk_absent [OF assms(2) [unfolded on_the_way_def] assms(3) [unfolded on_the_way_def] n(3)]
    n(1,2) show ?thesis
    by (simp add: resolve_def start_of_def)
qed

subsection \<open>mkdir with parents\<close>

lemma mkdir_last:
  assumes ok: "names_ok p"
    and way: "\<forall>q \<in> set (on_the_way f p). lookup f q = Some Dir"
    and tgt: "lookup f (target f p) = None \<or> lookup f (target f p) = Some Dir"
  shows "\<exists>f'. pathlib_mkdir f p parents True = (Inr (), f') \<and> cwd f' = cwd f
           \<and> (\<forall>q. lookup f' q = (if q = target f p then Some Dir else lookup f q))"
proof -
  note r = resolve_ok [OF ok way]
  from tgt show ?thesis
  proof
    assume n: "lookup f (target f p) = None"
    then have "os_mkdir f p = (Inr (), store f (target f p) Dir)"
      by (simp add: os_mkdir_def r)
    then have "pathlib_mkdir f p parents True = (Inr (), store f (target f p) Dir)"
      by (simp add: pathlib_mkdir.simps [of f p])
    then show ?thesis
      by (simp add: cwd_store lookup_store)
  next
    assume d: "lookup f (target f p) = Some Dir"
    then have m: "os_mkdir f p = (Inl (OSError EEXIST (path_str p)), f)"
      by (simp add: os_mkdir_def r)
    from d have "is_dir f p = Inr True"
      by (simp add: is_dir_def os_stat_def r)
    with m have "pathlib_mkdir f p parents True = (Inr (), f)"
      by (simp add: pathlib_mkdir.simps [of f p])
    with d show ?thesis by auto
  qed
qed

lemma on_the_way_snoc:
  assumes "parts p = cs @ [c]"
  shows "on_the_way f p = trail (start_of f p) cs"
    and "trail (start_of f p) (parts p) = trail (start_of f p) cs @ [target f p]"
    and "parts (parent p) = cs" and "start_of f (parent p) = start_of f p"
    and "parent p \<noteq> p"
  using assms
  by (auto simp: on_the_way_def target_def trail_snoc parent_def start_of_def is_abs_def
        dest: arg_cong [where f = parts])

lemma mkdir_p:
  assumes "parts p = cs"
    and "names_ok p" and "\<forall>c \<in> set (parts p). c \<noteq> []"
    and "lookup f (start_of f p) = Some Dir"
    and "\<forall>q \<in> set (trail (start_of f p) (parts p)). lookup f q = None \<or> lookup f q = Some Dir"
  shows "\<exists>f'. pathlib_mkdir f p True True = (Inr (), f') \<and> cwd f' = cwd f
           \<and> (\<forall>q. lookup f' q =
                 (if q \<in> set (trail (start_of f p) (parts p)) then Some Dir else lookup f q))"
  using assms
proof (induction cs arbitrary: p f rule: rev_induct)
  case Nil
  then have w: "on_the_way f p = []" and t: "target f p = start_of f p"
    by (simp_all add: on_the_way_def target_def)
  from mkdir_last [of p f True] Nil.prems w t
  obtain f' where "pathlib_mkdir f p True True = (Inr (), f')" "cwd f' = cwd f"
    "\<forall>q. lookup f' q = (if q = target f p then Some Dir else lookup f q)"
    by auto
  with Nil.prems(1) t show ?case by simp
next
  case (snoc c cs)
  note s = on_the_way_snoc [OF snoc.prems(1)]
  let ?t = "target f p"
  from snoc.prems(5) s(2) have way: "\<forall>q \<in> set (trail (start_of f p) cs).
      lookup f q = None \<or> lookup f q = Some Dir"
    and tgt: "lookup f ?t = None \<or> lookup f ?t = Some Dir"
    by auto
  show ?case
  proof (cases "\<forall>q \<in> set (on_the_way f p). lookup f q = Some Dir")
    case True
    from mkdir_last [OF snoc.prems(2) True tgt, of True]
    obtain f' where f': "pathlib_mkdir f p True True = (Inr (), f')" "cwd f' = cwd f"
      "\<forall>q. lookup f' q = (if q = ?t then Some Dir else lookup f q)"
      by blast
    from True s(1) have "\<forall>q \<in> set (trail (start_of f p) cs). lookup f q = Some Dir"
      by simp
    with f' show ?thesis
      by (auto simp: s(2))
  next
    case False
    with way s(1) have ex: "\<exists>q \<in> set (on_the_way f p). lookup f q = None"
      by auto
    from way s(1) have way': "\<forall>q \<in> set (on_the_way f p). lookup f q = None \<or> lookup f q = Some Dir"
      by simp
    from resolve_absent [OF snoc.prems(2) way' ex]
    have m: "os_mkdir f p = (Inl (OSError ENOENT (path_str p)), f)"
      by (simp add: os_mkdir_def)
    have pok: "names_ok (parent p)"
      by (rule names_ok_parent [OF snoc.prems(2,3)])
    have pne: "\<forall>c \<in> set (parts (parent p)). c \<noteq> []"
      using snoc.prems(3) by (auto simp: parent_def dest: in_set_butlastD)
    have st: "lookup f (start_of f (parent p)) = Some Dir"
      using snoc.prems(4) s(4) by simp
    have tr: "\<forall>q \<in> set (trail (start_of f (parent p)) (parts (parent p))).
        lookup f q = None \<or> lookup f q = Some Dir"
      using way s(3,4) by simp
    from snoc.IH [OF s(3) pok pne st tr]
    obtain f1 where f1: "pathlib_mkdir f (parent p) True True = (Inr (), f1)" "cwd f1 = cwd f"
      "\<forall>q. lookup f1 q = (if q \<in> set (trail (start_of f p) cs) then Some Dir else lookup f q)"
      unfolding s(3,4) by blast
    note c1 = same_cwd [OF f1(2), of p]
    have way1: "\<forall>q \<in> set (on_the_way f1 p). lookup f1 q = Some Dir"
      using f1(3) s(1) c1 by simp
    have tgt1: "lookup f1 (target f1 p) = None \<or> lookup f1 (target f1 p) = Some Dir"
      using f1(3) tgt c1 by simp
    from mkdir_last [OF snoc.prems(2) way1 tgt1, of False]
    obtain f' where f': "pathlib_mkdir f1 p False True = (Inr (), f')" "cwd f' = cwd f1"
      "\<forall>q. lookup f' q = (if q = target f1 p then Some Dir else lookup f1 q)"
      by blast
    from m s(5) f1(1) f'(1) have "pathlib_mkdir f p True True = (Inr (), f')"
      by (simp add: pathlib_mkdir.simps [of f p])
    with f' f1 c1 show ?thesis
      by (auto simp: s(2))
  qed
qed

subsection \<open>The path of a tool\<close>

lemma Path_workspace: "Path ''workspace'' = \<lparr>root = [], parts = [''workspace'']\<rparr>"
  by (simp add: Path_def)

lemma truediv_workspace:
  "truediv (Path ''workspace'') p =
     (if is_abs (Path p) then Path p
      else \<lparr>root = [], parts = ''workspace'' # parts (Path p)\<rparr>)"
  by (simp add: truediv_def Path_workspace Let_def is_abs_def)

lemma parts_not_empty: "\<forall>c \<in> set (parts (truediv (Path ''workspace'') p)). c \<noteq> []"
  by (auto simp: truediv_workspace) (auto simp: Path_def)




lemma universal_newlines_id: "CHR 0x0D \<notin> set c \<Longrightarrow> universal_newlines c = c"
  by (induction c rule: universal_newlines.induct) auto

subsection \<open>Where a write lands\<close>

lemma write_file_lands:
  assumes cw: "can_write f (truediv (Path ''workspace'') p)"
  shows "\<exists>f'. write_file f p c = (''File written successfully: '' @ p, f') \<and> cwd f' = cwd f
           \<and> (\<forall>q. lookup f' q =
                (if q = target f (truediv (Path ''workspace'') p) then Some (File c)
                 else if q \<in> set (on_the_way f (truediv (Path ''workspace'') p)) then Some Dir
                 else lookup f q))"
proof -
  define wp where "wp = truediv (Path ''workspace'') p"
  from cw have ok: "names_ok wp" and st: "lookup f (start_of f wp) = Some Dir"
    and way: "\<forall>q \<in> set (on_the_way f wp). lookup f q = None \<or> lookup f q = Some Dir"
    and fresh: "target f wp \<notin> set (on_the_way f wp)"
    and tgt: "lookup f (target f wp) \<noteq> Some Dir" "lookup f (target f wp) \<noteq> Some Null"
    by (auto simp: can_write_def wp_def list_all_iff split: option.splits node.splits)
  have ne: "\<forall>c \<in> set (parts wp). c \<noteq> []"
    unfolding wp_def by (rule parts_not_empty)
  have "parts wp \<noteq> []"
  proof
    assume "parts wp = []"
    then have "target f wp = start_of f wp" by (simp add: target_def)
    with st tgt show False by simp
  qed
  then obtain cs c0 where cs: "parts wp = cs @ [c0]"
    by (cases "parts wp" rule: rev_cases) auto
  note s = on_the_way_snoc [OF cs]
  have pok: "names_ok (parent wp)" by (rule names_ok_parent [OF ok ne])
  have pne: "\<forall>c \<in> set (parts (parent wp)). c \<noteq> []"
    using ne by (auto simp: parent_def dest: in_set_butlastD)
  have pst: "lookup f (start_of f (parent wp)) = Some Dir"
    using st s(4) by simp
  have ptr: "\<forall>q \<in> set (trail (start_of f (parent wp)) (parts (parent wp))).
      lookup f q = None \<or> lookup f q = Some Dir"
    using way s(1,3,4) by simp
  from mkdir_p [OF refl pok pne pst ptr]
  obtain f1 where f1: "pathlib_mkdir f (parent wp) True True = (Inr (), f1)" "cwd f1 = cwd f"
    "\<forall>q. lookup f1 q = (if q \<in> set (on_the_way f wp) then Some Dir else lookup f q)"
    unfolding s(3,4) s(1) [symmetric] by blast
  note c1 = same_cwd [OF f1(2), of wp]
  have way1: "\<forall>q \<in> set (on_the_way f1 wp). lookup f1 q = Some Dir"
    using f1(3) c1 by simp
  note r1 = resolve_ok [OF ok way1]
  have l1: "lookup f1 (target f wp) = lookup f (target f wp)"
    using f1(3) fresh by simp
  from tgt l1 have "write_text f1 wp c = (Inr (), store f1 (target f wp) (File c))"
    by (auto simp: write_text_def r1 c1 split: option.splits node.splits)
  with f1(1) have "write_file f p c
      = (''File written successfully: '' @ p, store f1 (target f wp) (File c))"
    by (simp add: write_file_def write_file_try_def wp_def [symmetric])
  with f1(2,3) show ?thesis
    unfolding wp_def [symmetric]
    by (auto simp: cwd_store lookup_store)
qed

lemma stat_after_write:
  assumes ok: "names_ok wp"
    and fresh: "target f wp \<notin> set (on_the_way f wp)"
    and cwd: "cwd f' = cwd f"
    and l: "\<forall>q. lookup f' q =
                (if q = target f wp then Some (File c)
                 else if q \<in> set (on_the_way f wp) then Some Dir
                 else lookup f q)"
  shows "os_stat f' wp = Inr (File c)"
proof -
  note c1 = same_cwd [OF cwd, of wp]
  have way: "\<forall>q \<in> set (on_the_way f' wp). lookup f' q = Some Dir"
    using l fresh c1 by auto
  from resolve_ok [OF ok way] l show ?thesis
    by (simp add: os_stat_def c1)
qed

lemma read_file_of_stat:
  "os_stat f (truediv (Path ''workspace'') p) = Inr (File s) \<Longrightarrow>
   read_file f p = universal_newlines s"
  by (auto simp: read_file_def read_file_try_def exists_def read_text_def os_stat_def Let_def
        split: sum.splits option.splits)

lemma is_dir_parent_after_write:
  assumes ok: "names_ok wp" and ne: "\<forall>c \<in> set (parts wp). c \<noteq> []"
    and pne: "parts wp \<noteq> []"
    and fresh: "target f wp \<notin> set (on_the_way f wp)"
    and cwd: "cwd f' = cwd f"
    and l: "\<forall>q. lookup f' q =
                (if q = target f wp then Some (File c)
                 else if q \<in> set (on_the_way f wp) then Some Dir
                 else lookup f q)"
  shows "is_dir f' (parent wp) = Inr True"
proof -
  from pne obtain cs c0 where cs: "parts wp = cs @ [c0]"
    by (cases "parts wp" rule: rev_cases) auto
  note s = on_the_way_snoc [OF cs]
  note c1 = same_cwd [OF cwd]
  have wayset: "set (on_the_way f' (parent wp)) \<subseteq> set (on_the_way f wp)"
    and tin: "target f' (parent wp) \<in> set (on_the_way f wp)"
    using s(1) [of f] s(3,4)
    by (auto simp: on_the_way_def target_def start_of_def cwd dest: in_set_butlastD)
  have dirs: "\<forall>q \<in> set (on_the_way f wp). lookup f' q = Some Dir"
    using l fresh by auto
  have way: "\<forall>q \<in> set (on_the_way f' (parent wp)). lookup f' q = Some Dir"
    using dirs wayset by blast
  from resolve_ok [OF names_ok_parent [OF ok ne] way] dirs tin show ?thesis
    by (simp add: is_dir_def os_stat_def)
qed



lemma replicate_numeral: "replicate (numeral n) x = x # replicate (pred_numeral n) x"
  by (simp add: numeral_eq_Suc)

lemma long_name_results:
  "lookup disk1 [''home'', ''workspace'', long_name] = None"
  "read_file disk1 long_name =
     ''Error reading file: [Errno 36] File name too long: ''
       @ [CHR 0x27] @ ''workspace/'' @ long_name @ [CHR 0x27]"
  "list_files disk1 long_name =
     ''Error listing files: [Errno 36] File name too long: ''
       @ [CHR 0x27] @ ''workspace/'' @ long_name @ [CHR 0x27]"
  "fst (write_file disk1 long_name ''x'') =
     ''Error writing file: [Errno 36] File name too long: ''
       @ [CHR 0x27] @ ''workspace/'' @ long_name @ [CHR 0x27]"
  by (simp_all add: fs_defs disk1_def long_name_def pathlib_mkdir.simps replicate_numeral)








subsection \<open>Containment\<close>




subsection \<open>Soft failure and the not-found messages\<close>




subsection \<open>Writing, then reading\<close>

text \<open>
  Against C4, at paths inside the sandbox. Content with a carriage return is written
  with success and read back with a line feed in its place. At the path of an existing
  directory and below a regular file the write fails and the read returns a message, not
  the content; the write also fails at a name longer than the system allows, at a name
  with a NUL, and at a path that passes through the place it leads to.
\<close>

theorem round_trip_counterexample:
  "inside_sandbox disk1 (target disk1 (truediv (Path ''workspace'') ''a.txt''))
   \<and> fst (write_file disk1 ''a.txt'' [CHR ''x'', CHR 0x0D, CHR ''y''])
       = ''File written successfully: a.txt''
   \<and> read_file (snd (write_file disk1 ''a.txt'' [CHR ''x'', CHR 0x0D, CHR ''y''])) ''a.txt''
       = [CHR ''x'', CHR 0x0A, CHR ''y'']
   \<and> inside_sandbox disk1 (target disk1 (truediv (Path ''workspace'') ''data''))
   \<and> fst (write_file disk1 ''data'' ''x'') =
       ''Error writing file: [Errno 21] Is a directory: ''
         @ [CHR 0x27] @ ''workspace/data'' @ [CHR 0x27]
   \<and> read_file (snd (write_file disk1 ''data'' ''x'')) ''data'' =
       ''Error reading file: [Errno 21] Is a directory: ''
         @ [CHR 0x27] @ ''workspace/data'' @ [CHR 0x27]
   \<and> inside_sandbox disk1 (target disk1 (truediv (Path ''workspace'') ''f.txt/b''))
   \<and> fst (write_file disk1 ''f.txt/b'' ''x'') =
       ''Error writing file: [Errno 17] File exists: ''
         @ [CHR 0x27] @ ''workspace/f.txt'' @ [CHR 0x27]
   \<and> read_file (snd (write_file disk1 ''f.txt/b'' ''x'')) ''f.txt/b'' = ''File not found: f.txt/b''
   \<and> fst (write_file disk1 long_name ''x'') =
       ''Error writing file: [Errno 36] File name too long: ''
         @ [CHR 0x27] @ ''workspace/'' @ long_name @ [CHR 0x27]
   \<and> fst (write_file disk1 [CHR ''a'', CHR 0x00] ''x'')
       = ''Error writing file: embedded null byte''
   \<and> inside_sandbox disk1 (target disk1 (truediv (Path ''workspace'') ''new/../new''))
   \<and> fst (write_file disk1 ''new/../new'' ''x'') =
       ''Error writing file: [Errno 21] Is a directory: ''
         @ [CHR 0x27] @ ''workspace/new/../new'' @ [CHR 0x27]"
  by (simp add: long_name_results)
     (simp add: target_def start_of_def fs_defs disk1_def pathlib_mkdir.simps)

text \<open>
  C4, as the code has it. Take a path that leads inside the sandbox, on a disk where a
  file can be written at it: the names are within the limits of the system, the walk
  starts in a directory, every place on the way is a directory or missing, and the place
  the path leads to is none of them and holds no node or a regular file. For any content
  without a carriage return (and, as all text of the model, with a UTF-8 encoding),
  \<open>write_file\<close> then reports success, having created the missing directories on the way
  and replaced what the file held, and \<open>read_file\<close> afterwards returns exactly the
  content.
\<close>

theorem round_trip:
  assumes cw: "can_write f (truediv (Path ''workspace'') p)"
    and inside: "inside_sandbox f (target f (truediv (Path ''workspace'') p))"
    and c: "CHR 0x0D \<notin> set c"
  shows "\<exists>f'. write_file f p c = (''File written successfully: '' @ p, f')
           \<and> read_file f' p = c
           \<and> lookup f' (target f (truediv (Path ''workspace'') p)) = Some (File c)
           \<and> is_dir f' (parent (truediv (Path ''workspace'') p)) = Inr True"
proof -
  define wp where "wp = truediv (Path ''workspace'') p"
  from cw have ok: "names_ok wp" and st: "lookup f (start_of f wp) = Some Dir"
    and fresh: "target f wp \<notin> set (on_the_way f wp)"
    and tgt: "lookup f (target f wp) \<noteq> Some Dir"
    by (auto simp: can_write_def wp_def split: option.splits node.splits)
  have ne: "\<forall>c \<in> set (parts wp). c \<noteq> []"
    unfolding wp_def by (rule parts_not_empty)
  have pne: "parts wp \<noteq> []"
  proof
    assume "parts wp = []"
    then have "target f wp = start_of f wp" by (simp add: target_def)
    with st tgt show False by simp
  qed
  from write_file_lands [OF cw, of c] obtain f' where
    w: "write_file f p c = (''File written successfully: '' @ p, f')" and cwd: "cwd f' = cwd f"
    and l: "\<forall>q. lookup f' q =
                (if q = target f wp then Some (File c)
                 else if q \<in> set (on_the_way f wp) then Some Dir
                 else lookup f q)"
    unfolding wp_def by blast
  have "read_file f' p = universal_newlines c"
    using stat_after_write [OF ok fresh cwd l] by (simp add: read_file_of_stat wp_def)
  moreover have "is_dir f' (parent wp) = Inr True"
    by (rule is_dir_parent_after_write [OF ok ne pne fresh cwd l])
  moreover from l have "lookup f' (target f wp) = Some (File c)" by simp
  ultimately show ?thesis
    using w c by (auto simp: universal_newlines_id wp_def)
qed

theorem round_trip_witness:
  "can_write disk1 (truediv (Path ''workspace'') ''reports/2024/a.txt'')
   \<and> inside_sandbox disk1 (target disk1 (truediv (Path ''workspace'') ''reports/2024/a.txt''))
   \<and> CHR 0x0D \<notin> set ''hello''
   \<and> fst (write_file disk1 ''reports/2024/a.txt'' ''hello'')
       = ''File written successfully: reports/2024/a.txt''
   \<and> read_file (snd (write_file disk1 ''reports/2024/a.txt'' ''hello'')) ''reports/2024/a.txt''
       = ''hello''
   \<and> can_write disk1 (truediv (Path ''workspace'') ''f.txt'')
   \<and> read_file disk1 ''f.txt'' = ''old''
   \<and> read_file (snd (write_file disk1 ''f.txt'' ''new'')) ''f.txt'' = ''new''"
proof -
  have a: "can_write disk1 (truediv (Path ''workspace'') ''reports/2024/a.txt'')"
    by (simp add: can_write_def names_ok_def target_def on_the_way_def start_of_def
          fs_defs disk1_def utf8_length_Cons utf8_length_Nil)
  have b: "inside_sandbox disk1 (target disk1 (truediv (Path ''workspace'') ''reports/2024/a.txt''))"
    by (simp add: target_def start_of_def fs_defs disk1_def)
  have c: "CHR 0x0D \<notin> set ''hello''" by simp
  have a': "can_write disk1 (truediv (Path ''workspace'') ''f.txt'')"
    by (simp add: can_write_def names_ok_def target_def on_the_way_def start_of_def
          fs_defs disk1_def)
  have b': "inside_sandbox disk1 (target disk1 (truediv (Path ''workspace'') ''f.txt''))"
    by (simp add: target_def start_of_def fs_defs disk1_def)
  have c': "CHR 0x0D \<notin> set ''new''" by simp
  have o: "read_file disk1 ''f.txt'' = ''old''"
    by (simp add: fs_defs disk1_def)
  from round_trip [OF a b c] round_trip [OF a' b' c'] a b c a' o show ?thesis
    by auto
qed

end
